theory Spec2Isabelle
  imports Main
begin

section \<open>Data model of \<^verbatim>\<open>client/client.py\<close>\<close>

text \<open>
  The stream events that \<^verbatim>\<open>MCPClient.process_query\<close> inspects. The loop reads
  \<^verbatim>\<open>chunk.type\<close>, then \<^verbatim>\<open>chunk.content_block.type\<close> or \<^verbatim>\<open>chunk.delta.type\<close>; every
  value it does not name falls through all branches, which is what the \<open>Other\<close>
  constructors stand for.
\<close>

datatype content_block_start =
    ToolUseBlock string string   \<comment> \<open>\<^verbatim>\<open>content_block.type == 'tool_use'\<close>, with id and name\<close>
  | OtherBlock                   \<comment> \<open>any other block type, e.g. \<^verbatim>\<open>'text'\<close>\<close>

datatype delta =
    TextDelta string             \<comment> \<open>\<^verbatim>\<open>delta.type == 'text_delta'\<close>, with \<^verbatim>\<open>delta.text\<close>\<close>
  | InputJsonDelta string        \<comment> \<open>\<^verbatim>\<open>delta.type == 'input_json_delta'\<close>, with \<^verbatim>\<open>delta.partial_json\<close>\<close>
  | OtherDelta

datatype chunk =
    ContentBlockStart content_block_start
  | ContentBlockDelta delta
  | ContentBlockStop
  | OtherChunk                   \<comment> \<open>\<^verbatim>\<open>message_start\<close>, \<^verbatim>\<open>ping\<close>, ...\<close>

text \<open>
  \<^verbatim>\<open>current_tool_call\<close> is a dict whose \<^verbatim>\<open>"input"\<close> is a string while the block is
  open (\<open>open_call\<close>) and the parsed JSON value once it has been appended to
  \<^verbatim>\<open>tool_calls\<close> (\<open>tool_use\<close>).
\<close>

record open_call =
  oc_id :: string
  oc_name :: string
  oc_input :: string

record 'j tool_use =
  tu_id :: string
  tu_name :: string
  tu_input :: 'j

datatype exn = Exception string   \<comment> \<open>an instance of \<^verbatim>\<open>Exception\<close>, with the text \<^verbatim>\<open>str(e)\<close> gives\<close>

fun exn_str :: "exn \<Rightarrow> string" where
  "exn_str (Exception s) = s"

text \<open>
  What a call of \<^verbatim>\<open>json.loads\<close> does: it returns the parsed value, raises
  \<^verbatim>\<open>json.JSONDecodeError\<close>, or raises another exception (\<^verbatim>\<open>RecursionError\<close> on deep
  nesting, \<^verbatim>\<open>ValueError\<close> on an integer with too many digits), which the handler of
  line 110 does not catch.
\<close>

datatype 'j loaded = Parsed 'j | JSONDecodeError | Raised exn

text \<open>
  Library functions the code calls, taken as parameters: \<^verbatim>\<open>json.loads\<close>, the text an
  f-string gives a parsed value, and \<^verbatim>\<open>str.strip\<close> and \<^verbatim>\<open>str.lower\<close>.
\<close>

record 'j runtime =
  json_loads :: "string \<Rightarrow> 'j loaded"
  str_of :: "'j \<Rightarrow> string"
  str_strip :: "string \<Rightarrow> string"
  str_lower :: "string \<Rightarrow> string"

section \<open>The stream loop (lines 78--112)\<close>

text \<open>
  The local variables of the first \<^verbatim>\<open>for chunk in response_stream\<close> loop, with the
  text written to standard output so far (one entry per \<^verbatim>\<open>print\<close> call).
\<close>

record 'j decoder =
  text_parts :: "string list"
  tool_calls :: "'j tool_use list"
  current_tool_call :: "open_call option"
  out :: "string list"

definition decode_error_line :: "string \<Rightarrow> string" where
  "decode_error_line buf =
     ''\<newline>Error: Could not decode JSON for tool input: '' @ buf @ ''\<newline>''"

text \<open>One iteration of the loop body; \<open>Inl\<close> is an exception that leaves the loop.
  \<^verbatim>\<open>if current_tool_call:\<close> is true for every dict the loop builds (it has four keys),
  false for \<^verbatim>\<open>None\<close>.\<close>

fun decode_chunk :: "'j runtime \<Rightarrow> chunk \<Rightarrow> 'j decoder \<Rightarrow> exn + 'j decoder" where
  "decode_chunk rt (ContentBlockStart (ToolUseBlock i n)) d =
     Inr (d\<lparr>current_tool_call := Some \<lparr>oc_id = i, oc_name = n, oc_input = ''''\<rparr>\<rparr>)"
| "decode_chunk rt (ContentBlockStart OtherBlock) d = Inr d"
| "decode_chunk rt (ContentBlockDelta (TextDelta t)) d =
     Inr (d\<lparr>text_parts := text_parts d @ [t], out := out d @ [t]\<rparr>)"
| "decode_chunk rt (ContentBlockDelta (InputJsonDelta p)) d =
     (case current_tool_call d of
        None \<Rightarrow> Inr d
      | Some c \<Rightarrow> Inr (d\<lparr>current_tool_call := Some (c\<lparr>oc_input := oc_input c @ p\<rparr>)\<rparr>))"
| "decode_chunk rt (ContentBlockDelta OtherDelta) d = Inr d"
| "decode_chunk rt ContentBlockStop d =
     (case current_tool_call d of
        None \<Rightarrow> Inr d
      | Some c \<Rightarrow>
          (case json_loads rt (oc_input c) of
             Parsed v \<Rightarrow>
               Inr (d\<lparr>tool_calls := tool_calls d @
                        [\<lparr>tu_id = oc_id c, tu_name = oc_name c, tu_input = v\<rparr>],
                      current_tool_call := None\<rparr>)
           | JSONDecodeError \<Rightarrow>
               Inr (d\<lparr>current_tool_call := None,
                      out := out d @ [decode_error_line (oc_input c)]\<rparr>)
           | Raised e \<Rightarrow> Inl e))"
| "decode_chunk rt OtherChunk d = Inr d"

text \<open>The loop over the events: it ends with the stream or with the first exception, and
  gives the variables as they are then.\<close>

fun decode_from :: "'j runtime \<Rightarrow> chunk list \<Rightarrow> 'j decoder \<Rightarrow> exn option \<times> 'j decoder" where
  "decode_from rt [] d = (None, d)"
| "decode_from rt (chunk # chunks) d =
     (case decode_chunk rt chunk d of
        Inl e \<Rightarrow> (Some e, d)
      | Inr d' \<Rightarrow> decode_from rt chunks d')"

text \<open>Lines 78--83: the variables before the loop.\<close>

definition decoder_init :: "'j decoder" where
  "decoder_init = \<lparr>text_parts = [], tool_calls = [], current_tool_call = None, out = []\<rparr>"

definition decode_stream :: "'j runtime \<Rightarrow> chunk list \<Rightarrow> exn option \<times> 'j decoder" where
  "decode_stream rt chunks = decode_from rt chunks decoder_init"

text \<open>What a stream carries, in arrival order: its text fragments, its partial-JSON
  fragments, and whether an event opens a tool-use block or closes a block.\<close>

fun text_fragments :: "chunk list \<Rightarrow> string list" where
  "text_fragments [] = []"
| "text_fragments (ContentBlockDelta (TextDelta t) # cs) = t # text_fragments cs"
| "text_fragments (_ # cs) = text_fragments cs"

fun json_fragments :: "chunk list \<Rightarrow> string list" where
  "json_fragments [] = []"
| "json_fragments (ContentBlockDelta (InputJsonDelta p) # cs) = p # json_fragments cs"
| "json_fragments (_ # cs) = json_fragments cs"

fun is_tool_use_start :: "chunk \<Rightarrow> bool" where
  "is_tool_use_start (ContentBlockStart (ToolUseBlock i n)) = True"
| "is_tool_use_start _ = False"

fun is_stop :: "chunk \<Rightarrow> bool" where
  "is_stop ContentBlockStop = True"
| "is_stop _ = False"

section \<open>Messages, the tool session and the model API\<close>

record 'c tool_result =
  tool_use_id :: string
  result_content :: 'c

datatype ('j, 'c) content_block =
    Text string
  | ToolUse "'j tool_use"
  | ToolResult "'c tool_result"

datatype ('j, 'c) content =
    Plain string                              \<comment> \<open>\<^verbatim>\<open>"content": query\<close>\<close>
  | Blocks "('j, 'c) content_block list"

datatype role = User | Assistant

record ('j, 'c) message =
  msg_role :: role
  msg_content :: "('j, 'c) content"

record 'j tool =
  tool_name :: string
  tool_description :: "string option"
  tool_inputSchema :: 'j

record 'j tool_param =
  tp_name :: string
  tp_description :: "string option"
  tp_input_schema :: 'j

record ('j, 'c) request =
  req_model :: string
  req_max_tokens :: nat
  req_messages :: "('j, 'c) message list"
  req_tools :: "'j tool_param list"
  req_stream :: bool

text \<open>
  The two collaborators of \<^verbatim>\<open>MCPClient\<close>: \<^verbatim>\<open>self.session\<close> and \<^verbatim>\<open>self.anthropic\<close>. Each
  call reads and changes the outside world \<open>'w\<close> and either raises (\<open>Inl\<close>) or
  returns; \<open>call_tool\<close> returns the \<^verbatim>\<open>content\<close> of its result, the only field the
  code reads, and \<open>messages_create\<close> the events the returned stream yields.
\<close>

record ('j, 'c, 'w) mcp_client =
  list_tools :: "'w \<Rightarrow> (exn + 'j tool list) \<times> 'w"
  call_tool :: "string \<Rightarrow> 'j \<Rightarrow> 'w \<Rightarrow> (exn + 'c) \<times> 'w"
  messages_create :: "('j, 'c) request \<Rightarrow> 'w \<Rightarrow> (exn + chunk list) \<times> 'w"

text \<open>
  The effects of a run: the outside world, what was written to standard output
  (one entry per \<^verbatim>\<open>print\<close> or prompt), and the log of the model requests and of the
  tool invocations made so far.
\<close>

record ('j, 'c, 'w) io =
  world :: 'w
  stdout :: "string list"
  requests :: "('j, 'c) request list"
  invocations :: "(string \<times> 'j) list"

section \<open>\<^verbatim>\<open>process_query\<close> (lines 50--164)\<close>

definition available_tools_of :: "'j tool list \<Rightarrow> 'j tool_param list" where
  "available_tools_of tools =
     map (\<lambda>t. \<lparr>tp_name = tool_name t, tp_description = tool_description t,
                tp_input_schema = tool_inputSchema t\<rparr>) tools"

text \<open>\<^verbatim>\<open>self.anthropic.messages.create(...)\<close>, lines 70--76 and 150--156.\<close>

definition create_stream ::
  "('j, 'c, 'w) mcp_client \<Rightarrow> ('j, 'c) message list \<Rightarrow> 'j tool_param list \<Rightarrow>
   ('j, 'c, 'w) io \<Rightarrow> (exn + chunk list) \<times> ('j, 'c, 'w) io" where
  "create_stream cl messages available_tools s =
     (let req = \<lparr>req_model = ''deepseek-chat'', req_max_tokens = 1024,
                  req_messages = messages, req_tools = available_tools, req_stream = True\<rparr>;
          (r, w) = messages_create cl req (world s)
      in (r, s\<lparr>world := w, requests := requests s @ [req]\<rparr>))"

text \<open>Lines 114--118. \<^verbatim>\<open>if text_parts:\<close> and \<^verbatim>\<open>if tool_calls:\<close> test the lists for
  being non-empty.\<close>

definition assistant_message_content :: "'j decoder \<Rightarrow> ('j, 'c) content_block list" where
  "assistant_message_content d =
     (if text_parts d \<noteq> [] then [Text (concat (text_parts d))] else []) @
     (if tool_calls d \<noteq> [] then map ToolUse (tool_calls d) else [])"

definition calling_line :: "'j runtime \<Rightarrow> 'j tool_use \<Rightarrow> string" where
  "calling_line rt tc =
     ''\<newline>[Calling tool '' @ tu_name tc @ '' with args '' @ str_of rt (tu_input tc) @ '']\<newline>''"

text \<open>Lines 131--142: the loop over \<^verbatim>\<open>tool_calls\<close>; an exception of \<^verbatim>\<open>call_tool\<close>
  leaves the loop and \<^verbatim>\<open>process_query\<close>.\<close>

fun call_tools ::
  "('j, 'c, 'w) mcp_client \<Rightarrow> 'j runtime \<Rightarrow> 'j tool_use list \<Rightarrow> 'c tool_result list \<Rightarrow>
   ('j, 'c, 'w) io \<Rightarrow> (exn + 'c tool_result list) \<times> ('j, 'c, 'w) io" where
  "call_tools cl rt [] tool_results s = (Inr tool_results, s)"
| "call_tools cl rt (tc # tcs) tool_results s =
     (let s1 = s\<lparr>stdout := stdout s @ [calling_line rt tc]\<rparr>;
          (r, w) = call_tool cl (tu_name tc) (tu_input tc) (world s1);
          s2 = s1\<lparr>world := w, invocations := invocations s1 @ [(tu_name tc, tu_input tc)]\<rparr>
      in case r of
           Inl e \<Rightarrow> (Inl e, s2)
         | Inr c \<Rightarrow>
             call_tools cl rt tcs
               (tool_results @ [\<lparr>tool_use_id = tu_id tc, result_content = c\<rparr>]) s2)"

text \<open>Lines 159--162: the loop over the second stream.\<close>

fun print_text_delta :: "chunk \<Rightarrow> string list \<Rightarrow> string list" where
  "print_text_delta (ContentBlockDelta (TextDelta t)) printed = printed @ [t]"
| "print_text_delta _ printed = printed"

text \<open>Lines 129--164, entered when \<^verbatim>\<open>tool_calls\<close> is non-empty. The result is the
  message log at the end (a local variable of the source, dropped on return).\<close>

definition run_tool_calls ::
  "('j, 'c, 'w) mcp_client \<Rightarrow> 'j runtime \<Rightarrow> 'j tool_use list \<Rightarrow> ('j, 'c) message list \<Rightarrow>
   'j tool_param list \<Rightarrow> ('j, 'c, 'w) io \<Rightarrow> (exn + ('j, 'c) message list) \<times> ('j, 'c, 'w) io" where
  "run_tool_calls cl rt tcs messages available_tools s =
     (case call_tools cl rt tcs [] s of
        (Inl e, s1) \<Rightarrow> (Inl e, s1)
      | (Inr tool_results, s1) \<Rightarrow>
          (let messages' = messages @
                 [\<lparr>msg_role = User, msg_content = Blocks (map ToolResult tool_results)\<rparr>]
           in case create_stream cl messages' available_tools s1 of
                (Inl e, s2) \<Rightarrow> (Inl e, s2)
              | (Inr response_stream, s2) \<Rightarrow>
                  (Inr messages',
                   s2\<lparr>stdout := fold print_text_delta response_stream
                                    (stdout s2 @ [''\<newline>'']) @ [''\<newline>'']\<rparr>)))"

text \<open>Lines 114--164: what follows the first stream loop.\<close>

definition after_stream ::
  "('j, 'c, 'w) mcp_client \<Rightarrow> 'j runtime \<Rightarrow> 'j decoder \<Rightarrow> ('j, 'c) message list \<Rightarrow>
   'j tool_param list \<Rightarrow> ('j, 'c, 'w) io \<Rightarrow> (exn + ('j, 'c) message list) \<times> ('j, 'c, 'w) io" where
  "after_stream cl rt d messages available_tools s =
     (if assistant_message_content d = ([] :: ('j, 'c) content_block list) then (Inr messages, s)
      else
        (let messages' = messages @
               [\<lparr>msg_role = Assistant, msg_content = Blocks (assistant_message_content d)\<rparr>]
         in if tool_calls d \<noteq> []
            then run_tool_calls cl rt (tool_calls d) messages' available_tools s
            else (Inr messages', s)))"

definition process_query ::
  "('j, 'c, 'w) mcp_client \<Rightarrow> 'j runtime \<Rightarrow> string \<Rightarrow> ('j, 'c, 'w) io \<Rightarrow>
   (exn + ('j, 'c) message list) \<times> ('j, 'c, 'w) io" where
  "process_query cl rt query s =
     (let messages = [\<lparr>msg_role = User, msg_content = Plain query\<rparr>];
          (r, w) = list_tools cl (world s);
          s1 = s\<lparr>world := w\<rparr>
      in case r of
           Inl e \<Rightarrow> (Inl e, s1)
         | Inr tools \<Rightarrow>
             (let available_tools = available_tools_of tools
              in case create_stream cl messages available_tools s1 of
                   (Inl e, s2) \<Rightarrow> (Inl e, s2)
                 | (Inr response_stream, s2) \<Rightarrow>
                     (case decode_stream rt response_stream of
                        (Some e, d) \<Rightarrow> (Inl e, s2\<lparr>stdout := stdout s2 @ out d\<rparr>)
                      | (None, d) \<Rightarrow>
                          after_stream cl rt d messages available_tools
                            (s2\<lparr>stdout := stdout s2 @ out d\<rparr>))))"

section \<open>\<^verbatim>\<open>chat_loop\<close> (lines 166--181)\<close>

definition error_line :: "exn \<Rightarrow> string" where
  "error_line e = ''\<newline>Error: '' @ exn_str e @ ''\<newline>''"

text \<open>
  The \<^verbatim>\<open>while True\<close> loop, over the lines standard input still holds. \<^verbatim>\<open>input\<close> writes
  its prompt and returns the next line; when there is none it raises \<^verbatim>\<open>EOFError\<close>,
  which the handler of the loop catches like any other \<^verbatim>\<open>Exception\<close>, so the loop
  goes on and never returns (\<open>None\<close>).
\<close>

partial_function (option) chat_loop_from ::
  "('j, 'c, 'w) mcp_client \<Rightarrow> 'j runtime \<Rightarrow> string list \<Rightarrow> ('j, 'c, 'w) io \<Rightarrow>
   ('j, 'c, 'w) io option" where
  "chat_loop_from cl rt lines s =
     (let s1 = s\<lparr>stdout := stdout s @ [''\<newline>Query: '']\<rparr>
      in case lines of
           [] \<Rightarrow>
             chat_loop_from cl rt []
               (s1\<lparr>stdout := stdout s1 @ [error_line (Exception ''EOF when reading a line'')]\<rparr>)
         | l # ls \<Rightarrow>
             (let query = str_strip rt l
              in if str_lower rt query = ''quit'' then Some s1
                 else
                   (case process_query cl rt query s1 of
                      (Inl e, s2) \<Rightarrow>
                        chat_loop_from cl rt ls (s2\<lparr>stdout := stdout s2 @ [error_line e]\<rparr>)
                    | (Inr _, s2) \<Rightarrow> chat_loop_from cl rt ls s2)))"

declare chat_loop_from.simps [code]

definition chat_loop ::
  "('j, 'c, 'w) mcp_client \<Rightarrow> 'j runtime \<Rightarrow> string list \<Rightarrow> ('j, 'c, 'w) io \<Rightarrow>
   ('j, 'c, 'w) io option" where
  "chat_loop cl rt lines s =
     chat_loop_from cl rt lines
       (s\<lparr>stdout := stdout s @ [''\<newline>MCP Client Started!\<newline>'',
                                  ''Type your queries or 'quit' to exit.\<newline>'']\<rparr>)"

section \<open>A sample runtime and session\<close>

text \<open>
  Concrete collaborators on which the model is run: parsed JSON values, \<^verbatim>\<open>json.loads\<close>
  and \<^verbatim>\<open>str\<close> on the documents the sample streams carry, \<^verbatim>\<open>strip\<close> and \<^verbatim>\<open>lower\<close> on
  ASCII, and a session with one tool. On 2000 opening brackets \<^verbatim>\<open>json.loads\<close> raises
  \<^verbatim>\<open>RecursionError\<close>; on the other strings of the samples that are no JSON documents
  it raises \<^verbatim>\<open>json.JSONDecodeError\<close>.
\<close>

datatype json = JString string | JObject "(string \<times> json) list"

definition deep_brackets :: string where
  "deep_brackets = replicate 2000 (CHR ''['')"

definition recursion_error :: exn where
  "recursion_error = Exception
     ''maximum recursion depth exceeded while decoding a JSON array from a unicode string''"

definition sample_loads :: "string \<Rightarrow> json loaded" where
  "sample_loads s =
     (if s = ''{}'' then Parsed (JObject [])
      else if s = ''{\"path\":\"/tmp\"}'' then Parsed (JObject [(''path'', JString ''/tmp'')])
      else if s = deep_brackets then Raised recursion_error
      else JSONDecodeError)"

definition sample_str_of :: "json \<Rightarrow> string" where
  "sample_str_of v =
     (if v = JObject [] then ''{}''
      else if v = JObject [(''path'', JString ''/tmp'')] then ''{'path': '/tmp'}''
      else ''...'')"

definition ascii_space :: "char \<Rightarrow> bool" where
  "ascii_space c = (c \<in> set [CHR '' '', CHR 0x09, CHR 0x0A, CHR 0x0B, CHR 0x0C, CHR 0x0D])"

definition ascii_strip :: "string \<Rightarrow> string" where
  "ascii_strip s = rev (dropWhile ascii_space (rev (dropWhile ascii_space s)))"

definition ascii_lower_char :: "char \<Rightarrow> char" where
  "ascii_lower_char c =
     (case map_of (zip ''ABCDEFGHIJKLMNOPQRSTUVWXYZ'' ''abcdefghijklmnopqrstuvwxyz'') c of
        Some l \<Rightarrow> l
      | None \<Rightarrow> c)"

definition sample_runtime :: "json runtime" where
  "sample_runtime =
     \<lparr>json_loads = sample_loads, str_of = sample_str_of,
      str_strip = ascii_strip, str_lower = map ascii_lower_char\<rparr>"

definition text_block :: "string \<Rightarrow> chunk list" where
  "text_block t = [ContentBlockStart OtherBlock, ContentBlockDelta (TextDelta t), ContentBlockStop]"

definition tool_block :: "string \<Rightarrow> string \<Rightarrow> string list \<Rightarrow> chunk list" where
  "tool_block i n fragments =
     ContentBlockStart (ToolUseBlock i n) #
     map (\<lambda>p. ContentBlockDelta (InputJsonDelta p)) fragments @ [ContentBlockStop]"

text \<open>The session has the tool \<^verbatim>\<open>list_files\<close>, whose result names its arguments; the
  world counts the tool invocations. The model answers the first request of a query with the stream \<open>first\<close> and the follow-up
  request with the stream \<open>second\<close>.\<close>

definition sample_client :: "chunk list \<Rightarrow> chunk list \<Rightarrow> (json, string, nat) mcp_client" where
  "sample_client first second =
     \<lparr>list_tools = (\<lambda>w. (Inr [\<lparr>tool_name = ''list_files'', tool_description = Some ''List files'',
                                 tool_inputSchema = JObject []\<rparr>], w)),
      call_tool = (\<lambda>n a w. (if n = ''list_files'' then Inr (''files of '' @ sample_str_of a)
                             else Inl (Exception ''Unknown tool''), Suc w)),
      messages_create = (\<lambda>req w. (Inr (if length (req_messages req) = 1 then first
                                         else second), w))\<rparr>"

definition sample_tools :: "json tool_param list" where
  "sample_tools = [\<lparr>tp_name = ''list_files'', tp_description = Some ''List files'',
                    tp_input_schema = JObject []\<rparr>]"

definition io_init :: "(json, string, nat) io" where
  "io_init = \<lparr>world = 0, stdout = [], requests = [], invocations = []\<rparr>"

text \<open>Sample streams: two tool-use blocks, the one closed first with the greater id, a
  call of a tool the session does not have, and a tool-use block of 2000 opening
  brackets after a stop event that closes nothing.\<close>

definition two_calls :: "chunk list" where
  "two_calls = tool_block ''t2'' ''list_files'' [''{\"path\"'', '':\"/tmp\"}''] @
               tool_block ''t1'' ''list_files'' [''{}'']"

definition unknown_tool_call :: "chunk list" where
  "unknown_tool_call = tool_block ''t1'' ''delete_files'' [''{}'']"

definition sample_request :: "(json, string) message list \<Rightarrow> (json, string) request" where
  "sample_request messages =
     \<lparr>req_model = ''deepseek-chat'', req_max_tokens = 1024, req_messages = messages,
      req_tools = sample_tools, req_stream = True\<rparr>"

definition deep_call :: "chunk list" where
  "deep_call = ContentBlockStop # tool_block ''t1'' ''list_files'' [deep_brackets]"

section \<open>The stream loop as a fold\<close>

lemma decode_from_append:
  "decode_from rt (xs @ ys) d =
     (case decode_from rt xs d of
        (None, d') \<Rightarrow> decode_from rt ys d'
      | (Some e, d') \<Rightarrow> (Some e, d'))"
  by (induction xs arbitrary: d) (auto split: sum.splits)

lemma decode_from_append_returns:
  "decode_from rt xs d = (None, d') \<Longrightarrow> decode_from rt (xs @ ys) d = decode_from rt ys d'"
  by (simp add: decode_from_append)

lemma decode_from_append_raises:
  "decode_from rt xs d = (Some e, d') \<Longrightarrow> decode_from rt (xs @ ys) d = (Some e, d')"
  by (simp add: decode_from_append)

lemma decode_stream_append:
  "decode_stream rt (xs @ ys) =
     (case decode_stream rt xs of
        (None, d') \<Rightarrow> decode_from rt ys d'
      | (Some e, d') \<Rightarrow> (Some e, d'))"
  by (simp add: decode_stream_def decode_from_append)

lemma text_fragments_append: "text_fragments (xs @ ys) = text_fragments xs @ text_fragments ys"
  by (induction xs rule: text_fragments.induct) auto

lemma json_fragments_append: "json_fragments (xs @ ys) = json_fragments xs @ json_fragments ys"
  by (induction xs rule: json_fragments.induct) auto

lemma text_fragments_Cons: "text_fragments (c # cs) = text_fragments [c] @ text_fragments cs"
  using text_fragments_append [of "[c]" cs] by simp

lemma json_fragments_Cons: "json_fragments (c # cs) = json_fragments [c] @ json_fragments cs"
  using json_fragments_append [of "[c]" cs] by simp

text \<open>Every text fragment of an event the loop gets past is accumulated.\<close>

lemma text_parts_decode_chunk:
  "decode_chunk rt c d = Inr d' \<Longrightarrow> text_parts d' = text_parts d @ text_fragments [c]"
  by (cases "(rt, c, d)" rule: decode_chunk.cases) (auto split: option.splits loaded.splits)

lemma text_parts_decode_from:
  "decode_from rt cs d = (None, d') \<Longrightarrow> text_parts d' = text_parts d @ text_fragments cs"
proof (induction cs arbitrary: d)
  case Nil
  then show ?case by simp
next
  case (Cons c cs)
  from Cons.prems obtain d1 where step: "decode_chunk rt c d = Inr d1"
    and tail: "decode_from rt cs d1 = (None, d')"
    by (auto split: sum.splits)
  show ?case
    using Cons.IH [OF tail] text_parts_decode_chunk [OF step] text_fragments_Cons [of c cs]
    by simp
qed

text \<open>With no slot open and no tool-use start, only text is accumulated.\<close>

lemma decode_chunk_closed:
  "current_tool_call d = None \<Longrightarrow> \<not> is_tool_use_start c \<Longrightarrow>
   decode_chunk rt c d = Inr (d\<lparr>text_parts := text_parts d @ text_fragments [c],
                                out := out d @ text_fragments [c]\<rparr>)"
  by (cases "(rt, c, d)" rule: decode_chunk.cases) auto

lemma decode_from_closed:
  "current_tool_call d = None \<Longrightarrow> \<forall>c \<in> set cs. \<not> is_tool_use_start c \<Longrightarrow>
   decode_from rt cs d = (None, d\<lparr>text_parts := text_parts d @ text_fragments cs,
                                   out := out d @ text_fragments cs\<rparr>)"
proof (induction cs arbitrary: d)
  case Nil
  show ?case by simp
next
  case (Cons c cs)
  let ?d1 = "d\<lparr>text_parts := text_parts d @ text_fragments [c],
                out := out d @ text_fragments [c]\<rparr>"
  have step: "decode_chunk rt c d = Inr ?d1"
    using Cons.prems by (simp add: decode_chunk_closed)
  have "decode_from rt cs ?d1 =
        (None, ?d1\<lparr>text_parts := text_parts ?d1 @ text_fragments cs,
                    out := out ?d1 @ text_fragments cs\<rparr>)"
    using Cons.prems by (intro Cons.IH) simp_all
  then show ?case
    using text_fragments_Cons [of c cs] by (simp add: step)
qed

text \<open>With a slot open, up to the next stop or tool-use start the fragments are appended
  to its buffer.\<close>

lemma decode_chunk_open:
  "current_tool_call d = Some oc \<Longrightarrow> \<not> is_tool_use_start c \<Longrightarrow> \<not> is_stop c \<Longrightarrow>
   decode_chunk rt c d =
     Inr (d\<lparr>text_parts := text_parts d @ text_fragments [c],
            out := out d @ text_fragments [c],
            current_tool_call :=
              Some (oc\<lparr>oc_input := oc_input oc @ concat (json_fragments [c])\<rparr>)\<rparr>)"
  by (cases "(rt, c, d)" rule: decode_chunk.cases) auto

lemma decode_from_open:
  "current_tool_call d = Some oc \<Longrightarrow> \<forall>c \<in> set cs. \<not> is_tool_use_start c \<and> \<not> is_stop c \<Longrightarrow>
   decode_from rt cs d =
     (None, d\<lparr>text_parts := text_parts d @ text_fragments cs,
              out := out d @ text_fragments cs,
              current_tool_call :=
                Some (oc\<lparr>oc_input := oc_input oc @ concat (json_fragments cs)\<rparr>)\<rparr>)"
proof (induction cs arbitrary: d oc)
  case Nil
  then show ?case by simp
next
  case (Cons c cs)
  let ?oc = "oc\<lparr>oc_input := oc_input oc @ concat (json_fragments [c])\<rparr>"
  let ?d1 = "d\<lparr>text_parts := text_parts d @ text_fragments [c],
                out := out d @ text_fragments [c], current_tool_call := Some ?oc\<rparr>"
  have step: "decode_chunk rt c d = Inr ?d1"
    using Cons.prems by (simp add: decode_chunk_open)
  have "decode_from rt cs ?d1 =
     (None, ?d1\<lparr>text_parts := text_parts ?d1 @ text_fragments cs,
       out := out ?d1 @ text_fragments cs,
       current_tool_call := Some (?oc\<lparr>oc_input := oc_input ?oc @ concat (json_fragments cs)\<rparr>)\<rparr>)"
    using Cons.prems by (intro Cons.IH) simp_all
  then show ?case
    using text_fragments_Cons [of c cs] json_fragments_Cons [of c cs] by (simp add: step)
qed

text \<open>Without a stop event the loop raises nothing and appends nothing to the tool calls.\<close>

lemma decode_chunk_no_stop:
  "\<not> is_stop c \<Longrightarrow> \<exists>d'. decode_chunk rt c d = Inr d' \<and> tool_calls d' = tool_calls d"
  by (cases "(rt, c, d)" rule: decode_chunk.cases) (auto split: option.splits)

lemma decode_from_no_stop:
  "\<forall>c \<in> set cs. \<not> is_stop c \<Longrightarrow>
   fst (decode_from rt cs d) = None \<and> tool_calls (snd (decode_from rt cs d)) = tool_calls d"
proof (induction cs arbitrary: d)
  case Nil
  show ?case by simp
next
  case (Cons c cs)
  obtain d1 where step: "decode_chunk rt c d = Inr d1" and same: "tool_calls d1 = tool_calls d"
    using decode_chunk_no_stop [of c rt d] Cons.prems by auto
  show ?case
    using Cons.IH [of d1] Cons.prems by (simp add: step same)
qed

text \<open>The exception raised, the slot and the calls appended depend on the slot only.\<close>

lemma decode_chunk_slot_cong:
  assumes "current_tool_call d = current_tool_call d'"
  shows "(\<exists>e. decode_chunk rt c d = Inl e \<and> decode_chunk rt c d' = Inl e) \<or>
         (\<exists>d1 d1' ts. decode_chunk rt c d = Inr d1 \<and> decode_chunk rt c d' = Inr d1' \<and>
            current_tool_call d1 = current_tool_call d1' \<and>
            tool_calls d1 = tool_calls d @ ts \<and> tool_calls d1' = tool_calls d' @ ts)"
  using assms
  by (cases "(rt, c, d)" rule: decode_chunk.cases) (auto split: option.splits loaded.splits)

lemma decode_from_slot_cong:
  "current_tool_call d = current_tool_call d' \<Longrightarrow>
   fst (decode_from rt cs d) = fst (decode_from rt cs d') \<and>
   current_tool_call (snd (decode_from rt cs d)) = current_tool_call (snd (decode_from rt cs d')) \<and>
   (\<exists>ts. tool_calls (snd (decode_from rt cs d)) = tool_calls d @ ts \<and>
         tool_calls (snd (decode_from rt cs d')) = tool_calls d' @ ts)"
proof (induction cs arbitrary: d d')
  case Nil
  then show ?case by simp
next
  case (Cons c cs)
  from decode_chunk_slot_cong [OF Cons.prems, of rt c]
  consider (raises) e where "decode_chunk rt c d = Inl e" "decode_chunk rt c d' = Inl e"
    | (returns) d1 d1' ts where "decode_chunk rt c d = Inr d1" "decode_chunk rt c d' = Inr d1'"
        "current_tool_call d1 = current_tool_call d1'"
        "tool_calls d1 = tool_calls d @ ts" "tool_calls d1' = tool_calls d' @ ts"
    by blast
  then show ?case
  proof cases
    case raises
    then show ?thesis using Cons.prems by simp
  next
    case returns
    from Cons.IH [OF returns(3)]
    obtain us where raised: "fst (decode_from rt cs d1) = fst (decode_from rt cs d1')"
      and slot: "current_tool_call (snd (decode_from rt cs d1)) =
          current_tool_call (snd (decode_from rt cs d1'))"
      and u1: "tool_calls (snd (decode_from rt cs d1)) = tool_calls d1 @ us"
      and u2: "tool_calls (snd (decode_from rt cs d1')) = tool_calls d1' @ us"
      by blast
    have "tool_calls (snd (decode_from rt (c # cs) d)) = tool_calls d @ (ts @ us)"
      using returns(1,4) u1 by simp
    moreover have "tool_calls (snd (decode_from rt (c # cs) d')) = tool_calls d' @ (ts @ us)"
      using returns(2,5) u2 by simp
    ultimately show ?thesis
      using raised slot returns(1,2) by auto
  qed
qed

lemma tool_calls_decode_from_grow:
  "\<exists>ts. tool_calls (snd (decode_from rt cs d)) = tool_calls d @ ts"
  using decode_from_slot_cong [of d d rt cs] by auto

lemma decode_from_closed_state:
  assumes "current_tool_call d = None"
  shows "fst (decode_from rt cs d) = fst (decode_stream rt cs) \<and>
         tool_calls (snd (decode_from rt cs d)) =
           tool_calls d @ tool_calls (snd (decode_stream rt cs))"
proof -
  have "current_tool_call d = current_tool_call (decoder_init :: 'a decoder)"
    using assms by (simp add: decoder_init_def)
  from decode_from_slot_cong [OF this, of rt cs]
  obtain ts where "fst (decode_from rt cs d) = fst (decode_from rt cs decoder_init)"
    and "tool_calls (snd (decode_from rt cs d)) = tool_calls d @ ts"
    and "tool_calls (snd (decode_from rt cs decoder_init)) =
        tool_calls (decoder_init :: 'a decoder) @ ts"
    by blast
  then show ?thesis by (simp add: decode_stream_def decoder_init_def)
qed

lemma decode_from_same_slot:
  assumes "current_tool_call d = current_tool_call d'" and "tool_calls d = tool_calls d'"
  shows "fst (decode_from rt cs d) = fst (decode_from rt cs d') \<and>
         tool_calls (snd (decode_from rt cs d)) = tool_calls (snd (decode_from rt cs d'))"
  using decode_from_slot_cong [OF assms(1), of rt cs] assms(2) by auto

text \<open>What has been printed stays printed.\<close>

lemma out_decode_chunk_grows: "decode_chunk rt c d = Inr d' \<Longrightarrow> \<exists>ys. out d' = out d @ ys"
  by (cases "(rt, c, d)" rule: decode_chunk.cases) (auto split: option.splits loaded.splits)

lemma out_decode_from_grows: "\<exists>ys. out (snd (decode_from rt cs d)) = out d @ ys"
proof (induction cs arbitrary: d)
  case Nil
  show ?case by simp
next
  case (Cons c cs)
  show ?case
  proof (cases "decode_chunk rt c d")
    case (Inl e)
    then show ?thesis by simp
  next
    case (Inr d1)
    obtain ys where ys: "out d1 = out d @ ys"
      using out_decode_chunk_grows [OF Inr] by blast
    obtain zs where "out (snd (decode_from rt cs d1)) = out d1 @ zs"
      using Cons.IH by blast
    then show ?thesis using ys Inr by simp
  qed
qed

text \<open>The loop raises only what \<^verbatim>\<open>json.loads\<close> raises: with a parser that raises nothing
  but \<^verbatim>\<open>json.JSONDecodeError\<close> it returns on every stream.\<close>

lemma decode_chunk_raises:
  "decode_chunk rt c d = Inl e \<Longrightarrow>
   c = ContentBlockStop \<and> (\<exists>oc. current_tool_call d = Some oc \<and> json_loads rt (oc_input oc) = Raised e)"
  by (cases "(rt, c, d)" rule: decode_chunk.cases) (auto split: option.splits loaded.splits)

lemma decode_from_returns:
  assumes "\<And>s e. json_loads rt s \<noteq> Raised e"
  shows "fst (decode_from rt cs d) = None"
proof (induction cs arbitrary: d)
  case Nil
  show ?case by simp
next
  case (Cons c cs)
  show ?case
  proof (cases "decode_chunk rt c d")
    case (Inl e)
    then show ?thesis using decode_chunk_raises [OF Inl] assms by auto
  next
    case (Inr d1)
    then show ?thesis using Cons.IH [of d1] by simp
  qed
qed

text \<open>The samples: 2000 opening brackets are none of the other documents.\<close>

lemma deep_brackets_Cons: "deep_brackets = CHR ''['' # replicate 1999 (CHR ''['')"
proof -
  have "(2000 :: nat) = Suc 1999" by simp
  then show ?thesis unfolding deep_brackets_def by (simp only: replicate_Suc)
qed

lemma deep_brackets_distinct [simp]:
  "deep_brackets \<noteq> []" "[] \<noteq> deep_brackets"
  "deep_brackets \<noteq> CHR ''{'' # s" "CHR ''{'' # s \<noteq> deep_brackets"
  by (simp_all add: deep_brackets_Cons)

section \<open>The calls to the session and to the model\<close>

lemma fold_print_text_delta:
  "fold print_text_delta cs printed = printed @ text_fragments cs"
  by (induction cs arbitrary: printed rule: text_fragments.induct) simp_all

lemma create_stream_effects:
  assumes "create_stream cl messages available_tools s = (r, s')"
  shows "invocations s' = invocations s" and "stdout s' = stdout s"
    and "requests s' = requests s @
      [\<lparr>req_model = ''deepseek-chat'', req_max_tokens = 1024, req_messages = messages,
        req_tools = available_tools, req_stream = True\<rparr>]"
  using assms by (auto simp: create_stream_def Let_def split: prod.splits)

lemma call_tools_requests:
  "call_tools cl rt tcs rs s = (r, s') \<Longrightarrow> requests s' = requests s"
proof (induction tcs arbitrary: rs s)
  case Nil
  then show ?case by simp
next
  case (Cons tc tcs)
  then show ?case
    by (auto simp: Let_def split: prod.splits sum.splits)
qed

text \<open>One iteration of the loop over the tool calls that returns.\<close>

lemma call_tools_Cons_returns:
  assumes "call_tools cl rt (tc # tcs) rs s = (Inr rs', s')"
  obtains c w where "call_tool cl (tu_name tc) (tu_input tc) (world s) = (Inr c, w)"
    and "call_tools cl rt tcs (rs @ [\<lparr>tool_use_id = tu_id tc, result_content = c\<rparr>])
          (s\<lparr>stdout := stdout s @ [calling_line rt tc], world := w,
             invocations := invocations s @ [(tu_name tc, tu_input tc)]\<rparr>) = (Inr rs', s')"
proof -
  obtain r w where ct: "call_tool cl (tu_name tc) (tu_input tc) (world s) = (r, w)"
    by (cases "call_tool cl (tu_name tc) (tu_input tc) (world s)")
  show ?thesis
  proof (cases r)
    case (Inl e)
    then show ?thesis using assms ct by (simp add: Let_def)
  next
    case (Inr c)
    then show ?thesis using assms ct that [of c w] by (simp add: Let_def)
  qed
qed

lemma call_tools_results:
  "call_tools cl rt tcs rs s = (Inr rs', s') \<Longrightarrow>
   map tool_use_id rs' = map tool_use_id rs @ map tu_id tcs \<and>
   invocations s' = invocations s @ map (\<lambda>tc. (tu_name tc, tu_input tc)) tcs"
proof (induction tcs arbitrary: rs s)
  case Nil
  then show ?case by simp
next
  case (Cons tc tcs)
  from call_tools_Cons_returns [OF Cons.prems] obtain c w
    where "call_tools cl rt tcs (rs @ [\<lparr>tool_use_id = tu_id tc, result_content = c\<rparr>])
          (s\<lparr>stdout := stdout s @ [calling_line rt tc], world := w,
             invocations := invocations s @ [(tu_name tc, tu_input tc)]\<rparr>) = (Inr rs', s')"
    by blast
  from Cons.IH [OF this] show ?case by simp
qed

lemma call_tools_extends:
  "call_tools cl rt tcs rs s = (Inr rs', s') \<Longrightarrow> \<exists>new. rs' = rs @ new"
proof (induction tcs arbitrary: rs s)
  case Nil
  then show ?case by simp
next
  case (Cons tc tcs)
  from call_tools_Cons_returns [OF Cons.prems] obtain c w
    where "call_tools cl rt tcs (rs @ [\<lparr>tool_use_id = tu_id tc, result_content = c\<rparr>])
          (s\<lparr>stdout := stdout s @ [calling_line rt tc], world := w,
             invocations := invocations s @ [(tu_name tc, tu_input tc)]\<rparr>) = (Inr rs', s')"
    by blast
  from Cons.IH [OF this] show ?case by auto
qed

lemma call_tools_append:
  "call_tools cl rt (xs @ ys) rs s =
     (case call_tools cl rt xs rs s of
        (Inl e, s1) \<Rightarrow> (Inl e, s1)
      | (Inr rs1, s1) \<Rightarrow> call_tools cl rt ys rs1 s1)"
  by (induction xs arbitrary: rs s) (auto simp: Let_def split: prod.splits sum.splits)

text \<open>The result at the place of a tool call holds the id of that call and the content
  that the invocation made for it, after the calls before it, returned.\<close>

lemma call_tools_position:
  assumes "call_tools cl rt (before @ tc # after) [] s = (Inr results, s')"
  shows "\<exists>rb ra sk c w.
           call_tools cl rt before [] s = (Inr rb, sk) \<and>
           call_tool cl (tu_name tc) (tu_input tc) (world sk) = (Inr c, w) \<and>
           results = rb @ \<lparr>tool_use_id = tu_id tc, result_content = c\<rparr> # ra \<and>
           length rb = length before"
proof -
  obtain r sk where first: "call_tools cl rt before [] s = (r, sk)"
    by (cases "call_tools cl rt before [] s")
  show ?thesis
  proof (cases r)
    case (Inl e)
    then show ?thesis using assms first by (simp add: call_tools_append)
  next
    case (Inr rb)
    have tail: "call_tools cl rt (tc # after) rb sk = (Inr results, s')"
      using assms first Inr by (simp add: call_tools_append)
    from call_tools_Cons_returns [OF tail] obtain c w
      where ct: "call_tool cl (tu_name tc) (tu_input tc) (world sk) = (Inr c, w)"
        and rest: "call_tools cl rt after (rb @ [\<lparr>tool_use_id = tu_id tc, result_content = c\<rparr>])
          (sk\<lparr>stdout := stdout sk @ [calling_line rt tc], world := w,
              invocations := invocations sk @ [(tu_name tc, tu_input tc)]\<rparr>) = (Inr results, s')"
      by blast
    obtain ra where ra: "results = (rb @ [\<lparr>tool_use_id = tu_id tc, result_content = c\<rparr>]) @ ra"
      using call_tools_extends [OF rest] by blast
    have "map tool_use_id rb = map tu_id before"
      using call_tools_results [of cl rt before "[]" s rb sk] first Inr by simp
    then have "length rb = length before"
      using length_map [of tool_use_id rb] length_map [of tu_id before] by simp
    then show ?thesis using first Inr ct ra by simp
  qed
qed

lemma assistant_message_content_Nil:
  "(assistant_message_content d = []) = (text_parts d = [] \<and> tool_calls d = [])"
  by (simp add: assistant_message_content_def)

text \<open>The content of the assistant message, read off a stream the loop gets through: a
  Text block for a non-empty list of text fragments, then the tool calls.\<close>

lemma assistant_message_content_decode_stream:
  assumes "decode_stream rt stream = (None, d)"
  shows "assistant_message_content d =
     (if text_fragments stream = [] then [] else [Text (concat (text_fragments stream))]) @
     map ToolUse (tool_calls d)"
  using text_parts_decode_from [of rt stream decoder_init d] assms
  by (simp add: assistant_message_content_def decode_stream_def decoder_init_def)

lemma no_text_delta_no_text_block:
  assumes "decode_stream rt stream = (None, d)" and "text_fragments stream = []"
  shows "assistant_message_content d = map ToolUse (tool_calls d)"
  using assms by (simp add: assistant_message_content_decode_stream)

lemma process_query_after_first_stream:
  assumes "list_tools cl (world s) = (Inr tools, w)"
    and "create_stream cl [\<lparr>msg_role = User, msg_content = Plain query\<rparr>]
           (available_tools_of tools) (s\<lparr>world := w\<rparr>) = (Inr stream, s1)"
    and "decode_stream rt stream = (None, d)"
  shows "process_query cl rt query s =
     after_stream cl rt d [\<lparr>msg_role = User, msg_content = Plain query\<rparr>]
       (available_tools_of tools) (s1\<lparr>stdout := stdout s1 @ out d\<rparr>)"
  using assms by (simp add: process_query_def Let_def)

lemma process_query_decode_raises:
  assumes "list_tools cl (world s) = (Inr tools, w)"
    and "create_stream cl [\<lparr>msg_role = User, msg_content = Plain query\<rparr>]
           (available_tools_of tools) (s\<lparr>world := w\<rparr>) = (Inr stream, s1)"
    and "decode_stream rt stream = (Some e, d)"
  shows "process_query cl rt query s = (Inl e, s1\<lparr>stdout := stdout s1 @ out d\<rparr>)"
  using assms by (simp add: process_query_def Let_def)

text \<open>The chat loop returns only after it has read a line: at the end of the input it
  runs forever.\<close>

lemma chat_loop_from_returns_after_input:
  assumes "chat_loop_from cl rt lines s = Some s'"
  shows "lines \<noteq> []"
proof (rule chat_loop_from.raw_induct
    [where P = "\<lambda>cl rt lines s s'. lines \<noteq> []", OF _ assms], goal_cases)
  case (1 f cl rt lines s s')
  show ?case
  proof
    assume "lines = []"
    with 1(2) obtain s'' where "f cl rt [] s'' = Some s'"
      by (simp add: Let_def)
    from 1(1) [OF this] show False by simp
  qed
qed

lemma chat_loop_from_eof: "chat_loop_from cl rt [] s = None"
  using chat_loop_from_returns_after_input [of cl rt "[]" s]
  by (cases "chat_loop_from cl rt [] s") auto

text \<open>The definitions unfolded to run the model on the samples.\<close>

lemmas sample_defs =
  sample_client_def sample_runtime_def sample_loads_def sample_str_of_def sample_tools_def
  text_block_def tool_block_def io_init_def create_stream_def available_tools_of_def
  decode_stream_def decoder_init_def

lemmas run_defs =
  process_query_def after_stream_def run_tool_calls_def assistant_message_content_def
  calling_line_def two_calls_def unknown_tool_call_def sample_request_def Let_def

section \<open>Properties of the stream loop\<close>



text \<open>
  C8. A tool-use content-block-start always opens a fresh slot with the new id
  and name and an empty buffer, whatever slot was open; a slot opened before and
  not closed by a stop event is discarded: the stream raises or returns, and
  gives the tool calls, as it does without the discarded block.
\<close>

theorem unclosed_slot_discarded:
  assumes "\<forall>c \<in> set dropped. \<not> is_stop c"
  shows "decode_chunk rt (ContentBlockStart (ToolUseBlock i n)) d =
           Inr (d\<lparr>current_tool_call := Some \<lparr>oc_id = i, oc_name = n, oc_input = ''''\<rparr>\<rparr>) \<and>
         (fst (decode_stream rt pre) = None \<longrightarrow>
            fst (decode_stream rt
              (pre @ ContentBlockStart (ToolUseBlock i' n') # dropped @
               [ContentBlockStart (ToolUseBlock i n)])) = None \<and>
            current_tool_call (snd (decode_stream rt
              (pre @ ContentBlockStart (ToolUseBlock i' n') # dropped @
               [ContentBlockStart (ToolUseBlock i n)]))) =
              Some \<lparr>oc_id = i, oc_name = n, oc_input = ''''\<rparr>) \<and>
         fst (decode_stream rt
           (pre @ ContentBlockStart (ToolUseBlock i' n') # dropped @
            ContentBlockStart (ToolUseBlock i n) # rest)) =
         fst (decode_stream rt (pre @ ContentBlockStart (ToolUseBlock i n) # rest)) \<and>
         tool_calls (snd (decode_stream rt
           (pre @ ContentBlockStart (ToolUseBlock i' n') # dropped @
            ContentBlockStart (ToolUseBlock i n) # rest))) =
         tool_calls (snd (decode_stream rt (pre @ ContentBlockStart (ToolUseBlock i n) # rest)))"
proof -
  let ?A = "ContentBlockStart (ToolUseBlock i' n')"
  let ?B = "ContentBlockStart (ToolUseBlock i n)"
  let ?fresh = "\<lparr>oc_id = i, oc_name = n, oc_input = ''''\<rparr>"
  obtain r d1 where pre: "decode_stream rt pre = (r, d1)"
    by (cases "decode_stream rt pre")
  have start: "decode_chunk rt ?B d = Inr (d\<lparr>current_tool_call := Some ?fresh\<rparr>)"
    by simp
  show ?thesis
  proof (cases r)
    case (Some e)
    have "decode_stream rt (pre @ ys) = (Some e, d1)" for ys
      using pre Some decode_from_append_raises [of rt pre decoder_init e d1 ys]
      by (simp add: decode_stream_def)
    then show ?thesis using start pre Some by simp
  next
    case None
    let ?da = "d1\<lparr>current_tool_call := Some \<lparr>oc_id = i', oc_name = n', oc_input = ''''\<rparr>\<rparr>"
    obtain da' where dropped: "decode_from rt dropped ?da = (None, da')"
      and kept: "tool_calls da' = tool_calls d1"
      using decode_from_no_stop [OF assms, of rt ?da]
      by (cases "decode_from rt dropped ?da") auto
    have whole: "decode_stream rt (pre @ ?A # dropped @ ?B # ys) =
        decode_from rt ys (da'\<lparr>current_tool_call := Some ?fresh\<rparr>)" for ys
    proof -
      have "decode_from rt (dropped @ ?B # ys) ?da = decode_from rt (?B # ys) da'"
        using decode_from_append_returns [OF dropped] .
      then have "decode_from rt (?A # dropped @ ?B # ys) d1 =
          decode_from rt ys (da'\<lparr>current_tool_call := Some ?fresh\<rparr>)"
        by simp
      then show ?thesis
        using pre None decode_from_append_returns [of rt pre decoder_init d1 "?A # dropped @ ?B # ys"]
        by (simp add: decode_stream_def)
    qed
    have direct: "decode_stream rt (pre @ ?B # rest) =
        decode_from rt rest (d1\<lparr>current_tool_call := Some ?fresh\<rparr>)"
      using pre None decode_from_append_returns [of rt pre decoder_init d1 "?B # rest"]
      by (simp add: decode_stream_def)
    have same: "fst (decode_from rt rest (da'\<lparr>current_tool_call := Some ?fresh\<rparr>)) =
          fst (decode_from rt rest (d1\<lparr>current_tool_call := Some ?fresh\<rparr>)) \<and>
        tool_calls (snd (decode_from rt rest (da'\<lparr>current_tool_call := Some ?fresh\<rparr>))) =
          tool_calls (snd (decode_from rt rest (d1\<lparr>current_tool_call := Some ?fresh\<rparr>)))"
      using kept by (intro decode_from_same_slot) simp_all
    have opened: "decode_stream rt (pre @ ?A # dropped @ [?B]) =
        (None, da'\<lparr>current_tool_call := Some ?fresh\<rparr>)"
      using whole [of "[]"] by simp
    show ?thesis
      using start opened same by (simp add: whole [of rest] direct)
  qed
qed

theorem unclosed_slot_discarded_witness:
  "list_all (\<lambda>c. \<not> is_stop c) [ContentBlockDelta (InputJsonDelta ''{}'')] \<and>
   fst (decode_stream sample_runtime (text_block ''Hi'')) = None \<and>
   current_tool_call (snd (decode_stream sample_runtime
     (text_block ''Hi'' @ ContentBlockStart (ToolUseBlock ''t1'' ''list_files'') #
      [ContentBlockDelta (InputJsonDelta ''{}'')] @
      [ContentBlockStart (ToolUseBlock ''t2'' ''read_file'')]))) =
     Some \<lparr>oc_id = ''t2'', oc_name = ''read_file'', oc_input = ''''\<rparr> \<and>
   fst (decode_stream sample_runtime
     (text_block ''Hi'' @ ContentBlockStart (ToolUseBlock ''t1'' ''list_files'') #
      [ContentBlockDelta (InputJsonDelta ''{}'')] @
      ContentBlockStart (ToolUseBlock ''t2'' ''read_file'') #
      [ContentBlockDelta (InputJsonDelta ''{\"path\":\"/tmp\"}''), ContentBlockStop])) = None \<and>
   tool_calls (snd (decode_stream sample_runtime
     (text_block ''Hi'' @ ContentBlockStart (ToolUseBlock ''t1'' ''list_files'') #
      [ContentBlockDelta (InputJsonDelta ''{}'')] @
      ContentBlockStart (ToolUseBlock ''t2'' ''read_file'') #
      [ContentBlockDelta (InputJsonDelta ''{\"path\":\"/tmp\"}''), ContentBlockStop]))) =
     [\<lparr>tu_id = ''t2'', tu_name = ''read_file'',
       tu_input = JObject [(''path'', JString ''/tmp'')]\<rparr>]"
proof -
  have h: "\<forall>c \<in> set [ContentBlockDelta (InputJsonDelta ''{}'')]. \<not> is_stop c"
    by simp
  have pre: "fst (decode_stream sample_runtime (text_block ''Hi'')) = None"
    by (simp add: decode_stream_def decoder_init_def text_block_def)
  have direct: "decode_stream sample_runtime
     (text_block ''Hi'' @ ContentBlockStart (ToolUseBlock ''t2'' ''read_file'') #
      [ContentBlockDelta (InputJsonDelta ''{\"path\":\"/tmp\"}''), ContentBlockStop]) =
     (None, \<lparr>text_parts = [''Hi''],
       tool_calls = [\<lparr>tu_id = ''t2'', tu_name = ''read_file'',
         tu_input = JObject [(''path'', JString ''/tmp'')]\<rparr>],
       current_tool_call = None, out = [''Hi'']\<rparr>)"
    by (simp add: sample_defs)
  show ?thesis
    using h pre direct
      unclosed_slot_discarded [OF h, of sample_runtime "''t2''" "''read_file''" decoder_init
        "text_block ''Hi''" "''t1''" "''list_files''"
        "[ContentBlockDelta (InputJsonDelta ''{\"path\":\"/tmp\"}''), ContentBlockStop]"]
    by (simp add: list_all_iff)
qed

text \<open>
  C10. A content-block-stop event that the loop gets past leaves no slot open,
  whether the buffer parsed or \<^verbatim>\<open>json.loads\<close> raised \<^verbatim>\<open>json.JSONDecodeError\<close>; the
  events up to the next tool-use content-block-start then leave the slot closed
  and the tool calls as they were, so partial-JSON fragments among them are
  dropped. The stop event is not got past exactly when a slot is open and
  \<^verbatim>\<open>json.loads\<close> raises another exception on its buffer; the loop ends there, and
  no later event is read.
\<close>

theorem stop_clears_slot:
  assumes "\<forall>c \<in> set cs. \<not> is_tool_use_start c"
  shows "(\<forall>d'. decode_chunk rt ContentBlockStop d = Inr d' \<longrightarrow>
            current_tool_call d' = None \<and>
            fst (decode_from rt (ContentBlockStop # cs) d) = None \<and>
            current_tool_call (snd (decode_from rt (ContentBlockStop # cs) d)) = None \<and>
            tool_calls (snd (decode_from rt (ContentBlockStop # cs) d)) = tool_calls d') \<and>
         (\<forall>e. decode_chunk rt ContentBlockStop d = Inl e \<longrightarrow>
            decode_from rt (ContentBlockStop # cs) d = (Some e, d)) \<and>
         ((\<exists>e. decode_chunk rt ContentBlockStop d = Inl e) =
          (\<exists>oc e. current_tool_call d = Some oc \<and> json_loads rt (oc_input oc) = Raised e))"
proof -
  have returns: "current_tool_call d' = None \<and>
      fst (decode_from rt (ContentBlockStop # cs) d) = None \<and>
      current_tool_call (snd (decode_from rt (ContentBlockStop # cs) d)) = None \<and>
      tool_calls (snd (decode_from rt (ContentBlockStop # cs) d)) = tool_calls d'"
    if step: "decode_chunk rt ContentBlockStop d = Inr d'" for d'
  proof -
    have closed: "current_tool_call d' = None"
      using step by (auto split: option.splits loaded.splits)
    show ?thesis
      using closed decode_from_closed [OF closed assms, of rt] step by simp
  qed
  have raises: "(\<exists>e. decode_chunk rt ContentBlockStop d = Inl e) =
      (\<exists>oc e. current_tool_call d = Some oc \<and> json_loads rt (oc_input oc) = Raised e)"
    by (auto split: option.splits loaded.splits)
  show ?thesis
    using returns raises by simp
qed

theorem stop_clears_slot_witness:
  "list_all (\<lambda>c. \<not> is_tool_use_start c)
     [ContentBlockDelta (InputJsonDelta ''{}''), ContentBlockStop] \<and>
   decode_chunk sample_runtime ContentBlockStop
     \<lparr>text_parts = [], tool_calls = [],
      current_tool_call = Some \<lparr>oc_id = ''t1'', oc_name = ''list_files'', oc_input = ''{\"path\"''\<rparr>,
      out = []\<rparr> =
     Inr \<lparr>text_parts = [], tool_calls = [], current_tool_call = None,
          out = [''\<newline>Error: Could not decode JSON for tool input: {\"path\"\<newline>'']\<rparr> \<and>
   decode_from sample_runtime
     (ContentBlockStop # [ContentBlockDelta (InputJsonDelta ''{}''), ContentBlockStop])
     \<lparr>text_parts = [], tool_calls = [],
      current_tool_call = Some \<lparr>oc_id = ''t1'', oc_name = ''list_files'', oc_input = ''{\"path\"''\<rparr>,
      out = []\<rparr> =
     (None, \<lparr>text_parts = [], tool_calls = [], current_tool_call = None,
          out = [''\<newline>Error: Could not decode JSON for tool input: {\"path\"\<newline>'']\<rparr>)"
proof -
  let ?d = "\<lparr>text_parts = [], tool_calls = [],
      current_tool_call = Some \<lparr>oc_id = ''t1'', oc_name = ''list_files'', oc_input = ''{\"path\"''\<rparr>,
      out = []\<rparr> :: json decoder"
  let ?d' = "\<lparr>text_parts = [], tool_calls = [], current_tool_call = None,
          out = [''\<newline>Error: Could not decode JSON for tool input: {\"path\"\<newline>'']\<rparr> :: json decoder"
  have h: "\<forall>c \<in> set [ContentBlockDelta (InputJsonDelta ''{}''), ContentBlockStop].
      \<not> is_tool_use_start c"
    by simp
  have step: "decode_chunk sample_runtime ContentBlockStop ?d = Inr ?d'"
    by (simp add: sample_runtime_def sample_loads_def decode_error_line_def)
  have run: "decode_from sample_runtime
     (ContentBlockStop # [ContentBlockDelta (InputJsonDelta ''{}''), ContentBlockStop]) ?d =
     (fst (decode_from sample_runtime
        (ContentBlockStop # [ContentBlockDelta (InputJsonDelta ''{}''), ContentBlockStop]) ?d),
      snd (decode_from sample_runtime
        (ContentBlockStop # [ContentBlockDelta (InputJsonDelta ''{}''), ContentBlockStop]) ?d))"
    by simp
  have rest: "snd (decode_from sample_runtime
        (ContentBlockStop # [ContentBlockDelta (InputJsonDelta ''{}''), ContentBlockStop]) ?d) = ?d'"
    by (simp add: sample_runtime_def sample_loads_def decode_error_line_def)
  from stop_clears_slot [OF h, of sample_runtime ?d] step
  have "fst (decode_from sample_runtime
        (ContentBlockStop # [ContentBlockDelta (InputJsonDelta ''{}''), ContentBlockStop]) ?d) = None"
    by blast
  then show ?thesis
    using h step rest run by (simp add: list_all_iff)
qed

text \<open>
  A tool-use block on whose buffer \<^verbatim>\<open>json.loads\<close> raises \<^verbatim>\<open>json.JSONDecodeError\<close> is
  left out: when the loop has come through the events before the block, it goes
  on after the block as it would from a closed slot, the tool calls are those
  closed before the block followed by those of the events after it, and the
  line \<^verbatim>\<open>Error: Could not decode JSON for tool input:\<close> with the buffer is
  printed.
\<close>

lemma decode_error_block_dropped:
  assumes body: "\<forall>c \<in> set body. \<not> is_tool_use_start c \<and> \<not> is_stop c"
    and invalid: "json_loads rt (concat (json_fragments body)) = JSONDecodeError"
    and pre: "fst (decode_stream rt pre) = None"
  shows "fst (decode_stream rt
           (pre @ ContentBlockStart (ToolUseBlock i n) # body @ ContentBlockStop # post)) =
         fst (decode_stream rt post) \<and>
         tool_calls (snd (decode_stream rt
           (pre @ ContentBlockStart (ToolUseBlock i n) # body @ ContentBlockStop # post))) =
         tool_calls (snd (decode_stream rt pre)) @ tool_calls (snd (decode_stream rt post)) \<and>
         (''\<newline>Error: Could not decode JSON for tool input: '' @ concat (json_fragments body) @
            ''\<newline>'') \<in> set (out (snd (decode_stream rt
           (pre @ ContentBlockStart (ToolUseBlock i n) # body @ ContentBlockStop # post))))"
proof -
  let ?s = "pre @ ContentBlockStart (ToolUseBlock i n) # body @ ContentBlockStop # post"
  let ?oc = "\<lparr>oc_id = i, oc_name = n, oc_input = concat (json_fragments body)\<rparr>"
  obtain d1 where d1: "decode_stream rt pre = (None, d1)"
    using pre by (cases "decode_stream rt pre") simp
  let ?d2 = "d1\<lparr>current_tool_call := Some \<lparr>oc_id = i, oc_name = n, oc_input = ''''\<rparr>\<rparr>"
  let ?d3 = "?d2\<lparr>text_parts := text_parts ?d2 @ text_fragments body,
      out := out ?d2 @ text_fragments body, current_tool_call := Some ?oc\<rparr>"
  let ?d4 = "?d3\<lparr>current_tool_call := None,
      out := out ?d3 @ [decode_error_line (concat (json_fragments body))]\<rparr>"
  have d3: "decode_from rt body ?d2 = (None, ?d3)"
    using decode_from_open [of ?d2 "\<lparr>oc_id = i, oc_name = n, oc_input = ''''\<rparr>" body rt] body
    by simp
  have d4: "decode_chunk rt ContentBlockStop ?d3 = Inr ?d4"
    using invalid by simp
  have whole: "decode_stream rt ?s = decode_from rt post ?d4"
    using d1 d3 d4 by (simp add: decode_stream_append decode_from_append)
  have closed: "current_tool_call ?d4 = None"
    by simp
  have calls: "fst (decode_from rt post ?d4) = fst (decode_stream rt post)"
    "tool_calls (snd (decode_from rt post ?d4)) =
      tool_calls d1 @ tool_calls (snd (decode_stream rt post))"
    using decode_from_closed_state [OF closed, of rt post] by simp_all
  obtain ys where "out (snd (decode_from rt post ?d4)) = out ?d4 @ ys"
    using out_decode_from_grows by blast
  then have warned: "decode_error_line (concat (json_fragments body)) \<in>
      set (out (snd (decode_stream rt ?s)))"
    using whole by simp
  show ?thesis
    using calls warned whole d1 by (simp add: decode_error_line_def)
qed

text \<open>
  C2. Line 110 catches \<^verbatim>\<open>json.JSONDecodeError\<close> only. On a buffer of 2000 opening
  brackets, which is no JSON document, \<^verbatim>\<open>json.loads\<close> raises \<^verbatim>\<open>RecursionError\<close>:
  the exception leaves the loop and \<^verbatim>\<open>process_query\<close>, no warning is printed, and
  the tool call decoded before the block is never invoked; the chat loop prints
  the exception as the error of the turn.
\<close>

theorem deep_nesting_escapes_decoder:
  "json_loads sample_runtime deep_brackets = Raised recursion_error \<and>
   decode_stream sample_runtime
     (tool_block ''t2'' ''list_files'' [''{}''] @ tool_block ''t1'' ''list_files'' [deep_brackets]) =
     (Some recursion_error,
      \<lparr>text_parts = [],
       tool_calls = [\<lparr>tu_id = ''t2'', tu_name = ''list_files'', tu_input = JObject []\<rparr>],
       current_tool_call = Some \<lparr>oc_id = ''t1'', oc_name = ''list_files'',
                                 oc_input = deep_brackets\<rparr>,
       out = []\<rparr>) \<and>
   process_query
     (sample_client (tool_block ''t2'' ''list_files'' [''{}''] @
                     tool_block ''t1'' ''list_files'' [deep_brackets]) [])
     sample_runtime ''list my files'' io_init =
     (Inl recursion_error,
      \<lparr>world = 0, stdout = [],
       requests = [sample_request [\<lparr>msg_role = User, msg_content = Plain ''list my files''\<rparr>]],
       invocations = []\<rparr>) \<and>
   chat_loop_from
     (sample_client (tool_block ''t2'' ''list_files'' [''{}''] @
                     tool_block ''t1'' ''list_files'' [deep_brackets]) [])
     sample_runtime [''list my files'', ''quit''] io_init =
     Some \<lparr>world = 0,
       stdout = [''\<newline>Query: '',
         ''\<newline>Error: maximum recursion depth exceeded while decoding a JSON array from a unicode string\<newline>'',
         ''\<newline>Query: ''],
       requests = [sample_request [\<lparr>msg_role = User, msg_content = Plain ''list my files''\<rparr>]],
       invocations = []\<rparr>"
proof -
  let ?stream = "tool_block ''t2'' ''list_files'' [''{}''] @
      tool_block ''t1'' ''list_files'' [deep_brackets]"
  let ?cl = "sample_client ?stream []"
  let ?s = "\<lparr>world = 0, stdout = [''\<newline>Query: ''],
       requests = [sample_request [\<lparr>msg_role = User, msg_content = Plain ''list my files''\<rparr>]],
       invocations = []\<rparr> :: (json, string, nat) io"
  have loads: "json_loads sample_runtime deep_brackets = Raised recursion_error"
    by (simp add: sample_runtime_def sample_loads_def)
  have dec: "decode_stream sample_runtime ?stream =
     (Some recursion_error,
      \<lparr>text_parts = [],
       tool_calls = [\<lparr>tu_id = ''t2'', tu_name = ''list_files'', tu_input = JObject []\<rparr>],
       current_tool_call = Some \<lparr>oc_id = ''t1'', oc_name = ''list_files'',
                                 oc_input = deep_brackets\<rparr>,
       out = []\<rparr>)"
    by (simp add: sample_defs)
  have pq: "process_query ?cl sample_runtime ''list my files'' s =
      (Inl recursion_error,
       s\<lparr>requests := requests s @
          [sample_request [\<lparr>msg_role = User, msg_content = Plain ''list my files''\<rparr>]]\<rparr>)"
    for s :: "(json, string, nat) io"
    using dec
    by (simp add: process_query_def Let_def sample_client_def create_stream_def
        available_tools_of_def sample_tools_def sample_request_def)
  have strip: "str_strip sample_runtime ''list my files'' = ''list my files''"
    by (simp add: sample_runtime_def ascii_strip_def ascii_space_def)
  have not_quit: "str_lower sample_runtime ''list my files'' \<noteq> ''quit''"
    by (simp add: sample_runtime_def)
  have turn: "chat_loop_from ?cl sample_runtime [''list my files'', ''quit''] io_init =
      chat_loop_from ?cl sample_runtime [''quit''] (?s\<lparr>stdout := stdout ?s @ [error_line recursion_error]\<rparr>)"
    by (subst chat_loop_from.simps) (simp add: pq strip not_quit Let_def io_init_def)
  have quit: "chat_loop_from ?cl sample_runtime [''quit'']
      (?s\<lparr>stdout := stdout ?s @ [error_line recursion_error]\<rparr>) =
      Some (?s\<lparr>stdout := stdout ?s @ [error_line recursion_error, ''\<newline>Query: '']\<rparr>)"
    by (subst chat_loop_from.simps)
      (simp add: sample_runtime_def ascii_strip_def ascii_space_def ascii_lower_char_def)
  show ?thesis
    using loads dec pq [of io_init] turn quit
    by (simp add: io_init_def error_line_def recursion_error_def)
qed

text \<open>
  A partial-JSON delta or a stop event that arrives with no slot open leaves the
  variables of the loop as they are, and the loop goes on with the next event.
\<close>

lemma orphan_event_ignored:
  assumes closed: "current_tool_call d = None"
    and orphan: "c = ContentBlockStop \<or> c = ContentBlockDelta (InputJsonDelta p)"
  shows "decode_chunk rt c d = Inr d \<and> decode_from rt (c # cs) d = decode_from rt cs d"
  using assms by auto

lemma orphan_event_ignored_in_stream:
  assumes pre: "fst (decode_stream rt pre) = None"
    and closed: "current_tool_call (snd (decode_stream rt pre)) = None"
    and orphan: "c = ContentBlockStop \<or> c = ContentBlockDelta (InputJsonDelta p)"
  shows "decode_stream rt (pre @ c # post) = decode_stream rt (pre @ post)"
proof -
  obtain d where d: "decode_stream rt pre = (None, d)"
    using pre by (cases "decode_stream rt pre") simp
  have "decode_from rt (c # post) d = decode_from rt post d"
    using orphan_event_ignored [OF _ orphan, of d rt post] closed d by simp
  then show ?thesis
    using d by (simp add: decode_stream_append)
qed

text \<open>
  C9. The stop event with no slot open is ignored, but the loop does not come
  through every finite stream that has one: on the stream of such a stop event
  followed by a tool-use block of 2000 opening brackets, \<^verbatim>\<open>json.loads\<close> raises
  \<^verbatim>\<open>RecursionError\<close> at the stop event of the block, which line 110 does not
  catch, and the loop ends with that exception.
\<close>

theorem orphan_stop_stream_raises:
  "decode_from sample_runtime [ContentBlockStop] decoder_init = (None, decoder_init) \<and>
   fst (decode_stream sample_runtime deep_call) = Some recursion_error \<and>
   fst (process_query (sample_client deep_call []) sample_runtime ''list my files'' io_init) =
     Inl recursion_error"
proof -
  have stop: "decode_from sample_runtime [ContentBlockStop] decoder_init = (None, decoder_init)"
    by (simp add: decoder_init_def)
  have dec: "decode_stream sample_runtime deep_call =
     (Some recursion_error,
      \<lparr>text_parts = [], tool_calls = [],
       current_tool_call = Some \<lparr>oc_id = ''t1'', oc_name = ''list_files'',
                                 oc_input = deep_brackets\<rparr>,
       out = []\<rparr>)"
    by (simp add: sample_defs deep_call_def)
  have "fst (process_query (sample_client deep_call []) sample_runtime ''list my files'' io_init) =
      Inl recursion_error"
    using dec
    by (simp add: process_query_def Let_def sample_client_def create_stream_def
        available_tools_of_def io_init_def)
  then show ?thesis
    using stop dec by simp
qed

text \<open>
  C7. Line 115 tests the list of fragments, not the joined text: a stream with
  an empty text fragment before its tool-use block has empty decoded text, and
  the assistant message of the log begins with a Text block of length zero.
\<close>

theorem empty_text_block_kept:
  "concat (text_parts (snd (decode_stream sample_runtime
      (text_block '''' @ tool_block ''t1'' ''list_files'' [''{}''])))) = '''' \<and>
   fst (process_query
      (sample_client (text_block '''' @ tool_block ''t1'' ''list_files'' [''{}''])
         (text_block ''ok''))
      sample_runtime ''list my files'' io_init) =
     Inr [\<lparr>msg_role = User, msg_content = Plain ''list my files''\<rparr>,
          \<lparr>msg_role = Assistant, msg_content = Blocks
             [Text '''',
              ToolUse \<lparr>tu_id = ''t1'', tu_name = ''list_files'', tu_input = JObject []\<rparr>]\<rparr>,
          \<lparr>msg_role = User, msg_content = Blocks
             [ToolResult \<lparr>tool_use_id = ''t1'', result_content = ''files of {}''\<rparr>]\<rparr>]"
  by (simp add: sample_defs run_defs)

section \<open>Properties of \<^verbatim>\<open>process_query\<close> and \<^verbatim>\<open>chat_loop\<close>\<close>

text \<open>
  C3. When the first stream has no tool-use block, the loop returns, the decoded
  text is the concatenation of its text fragments in arrival order, there are
  no tool calls, and \<^verbatim>\<open>process_query\<close> makes no tool invocation; it prints the
  fragments and nothing else.
\<close>

theorem text_only_stream:
  assumes closed: "\<forall>c \<in> set stream. \<not> is_tool_use_start c"
    and lt: "list_tools cl (world s) = (Inr tools, w)"
    and cs: "create_stream cl [\<lparr>msg_role = User, msg_content = Plain query\<rparr>]
           (available_tools_of tools) (s\<lparr>world := w\<rparr>) = (Inr stream, s1)"
  shows "fst (decode_stream rt stream) = None \<and>
         concat (text_parts (snd (decode_stream rt stream))) = concat (text_fragments stream) \<and>
         tool_calls (snd (decode_stream rt stream)) = [] \<and>
         invocations (snd (process_query cl rt query s)) = invocations s \<and>
         stdout (snd (process_query cl rt query s)) = stdout s @ text_fragments stream"
proof -
  let ?d = "(decoder_init :: 'a decoder)\<lparr>text_parts := text_fragments stream,
      out := text_fragments stream\<rparr>"
  have dec: "decode_stream rt stream = (None, ?d)"
    using decode_from_closed [of decoder_init stream rt] closed
    by (simp add: decode_stream_def decoder_init_def)
  have s1: "invocations s1 = invocations s" "stdout s1 = stdout s"
    using create_stream_effects [OF cs] by simp_all
  have "snd (process_query cl rt query s) = s1\<lparr>stdout := stdout s1 @ out ?d\<rparr>"
    using process_query_after_first_stream [OF lt cs dec]
    by (simp add: after_stream_def Let_def decoder_init_def)
  then show ?thesis
    using dec s1 by (simp add: decoder_init_def)
qed

theorem text_only_stream_witness:
  "fst (decode_stream sample_runtime (text_block ''4'')) = None \<and>
   concat (text_parts (snd (decode_stream sample_runtime (text_block ''4'')))) = ''4'' \<and>
   tool_calls (snd (decode_stream sample_runtime (text_block ''4''))) = [] \<and>
   invocations (snd (process_query (sample_client (text_block ''4'') []) sample_runtime
     ''What is 2+2?'' io_init)) = [] \<and>
   stdout (snd (process_query (sample_client (text_block ''4'') []) sample_runtime
     ''What is 2+2?'' io_init)) = [''4'']"
  using text_only_stream [of "text_block ''4''" "sample_client (text_block ''4'') []" io_init
      "[\<lparr>tool_name = ''list_files'', tool_description = Some ''List files'',
         tool_inputSchema = JObject []\<rparr>]" 0 "''What is 2+2?''"
      "io_init\<lparr>requests :=
         [\<lparr>req_model = ''deepseek-chat'', req_max_tokens = 1024,
           req_messages = [\<lparr>msg_role = User, msg_content = Plain ''What is 2+2?''\<rparr>],
           req_tools = sample_tools, req_stream = True\<rparr>]\<rparr>" sample_runtime]
  by (simp add: sample_defs)

text \<open>
  C4. When \<^verbatim>\<open>process_query\<close> returns after tool calls, the last message of the log
  is the user message of the tool results. The results are in the order of the
  decoded tool calls: their ids are the ids of the calls, one for one, and the
  result at the place of a call holds the content that the invocation made for
  that call, after the invocations for the calls before it, returned. The
  decoded tool calls are in closing order, those closed by a prefix of the
  stream coming first.
\<close>

theorem tool_results_in_closing_order:
  fixes cl :: "('j, 'c, 'w) mcp_client"
  assumes lt: "list_tools cl (world s) = (Inr tools, w)"
    and cs: "create_stream cl [\<lparr>msg_role = User, msg_content = Plain query\<rparr>]
           (available_tools_of tools) (s\<lparr>world := w\<rparr>) = (Inr stream, s1)"
    and dec: "decode_stream rt stream = (None, d)"
    and place: "tool_calls d = before @ tc # after"
    and ok: "fst (process_query cl rt query s) = Inr msgs"
  shows "(\<exists>results rb ra sk c w'.
           last msgs = \<lparr>msg_role = User, msg_content = Blocks (map ToolResult results)\<rparr> \<and>
           map tool_use_id results = map tu_id (tool_calls d) \<and>
           results = rb @ \<lparr>tool_use_id = tu_id tc, result_content = c\<rparr> # ra \<and>
           length rb = length before \<and>
           call_tools cl rt before [] (s1\<lparr>stdout := stdout s1 @ out d\<rparr>) = (Inr rb, sk) \<and>
           call_tool cl (tu_name tc) (tu_input tc) (world sk) = (Inr c, w')) \<and>
         (\<exists>later. tool_calls (snd (decode_stream rt (stream @ rest))) = tool_calls d @ later)"
proof -
  let ?m1 = "[\<lparr>msg_role = User, msg_content = Plain query\<rparr>]"
  let ?m2 = "?m1 @ [\<lparr>msg_role = Assistant,
      msg_content = Blocks (assistant_message_content d :: ('j, 'c) content_block list)\<rparr>]"
  let ?s2 = "s1\<lparr>stdout := stdout s1 @ out d\<rparr>"
  have calls: "tool_calls d \<noteq> []"
    using place by simp
  have pq: "process_query cl rt query s =
      run_tool_calls cl rt (tool_calls d) ?m2 (available_tools_of tools) ?s2"
    using process_query_after_first_stream [OF lt cs dec] calls
    by (simp add: after_stream_def Let_def assistant_message_content_Nil)
  obtain r s3 where ct: "call_tools cl rt (tool_calls d) [] ?s2 = (r, s3)"
    by (cases "call_tools cl rt (tool_calls d) [] ?s2")
  have first: "\<exists>results rb ra sk c w'.
           last msgs = \<lparr>msg_role = User, msg_content = Blocks (map ToolResult results)\<rparr> \<and>
           map tool_use_id results = map tu_id (tool_calls d) \<and>
           results = rb @ \<lparr>tool_use_id = tu_id tc, result_content = c\<rparr> # ra \<and>
           length rb = length before \<and>
           call_tools cl rt before [] ?s2 = (Inr rb, sk) \<and>
           call_tool cl (tu_name tc) (tu_input tc) (world sk) = (Inr c, w')"
  proof (cases r)
    case (Inl e)
    then show ?thesis using ok pq ct by (simp add: run_tool_calls_def)
  next
    case (Inr results)
    have ids: "map tool_use_id results = map tu_id (tool_calls d)"
      using call_tools_results [of cl rt "tool_calls d" "[]" ?s2 results s3] ct Inr by simp
    have msgs: "last msgs = \<lparr>msg_role = User, msg_content = Blocks (map ToolResult results)\<rparr>"
      using ok pq ct Inr
      by (auto simp: run_tool_calls_def Let_def split: prod.splits sum.splits)
    have "call_tools cl rt (before @ tc # after) [] ?s2 = (Inr results, s3)"
      using ct Inr place by simp
    from call_tools_position [OF this] obtain rb ra sk c w'
      where "call_tools cl rt before [] ?s2 = (Inr rb, sk)"
        and "call_tool cl (tu_name tc) (tu_input tc) (world sk) = (Inr c, w')"
        and "results = rb @ \<lparr>tool_use_id = tu_id tc, result_content = c\<rparr> # ra"
        and "length rb = length before"
      by blast
    then show ?thesis using ids msgs by blast
  qed
  obtain later where "tool_calls (snd (decode_from rt rest d)) = tool_calls d @ later"
    using tool_calls_decode_from_grow by blast
  then have second: "\<exists>later. tool_calls (snd (decode_stream rt (stream @ rest))) =
      tool_calls d @ later"
    using dec by (auto simp: decode_stream_append)
  show ?thesis using first second by blast
qed

theorem tool_results_in_closing_order_witness:
  "fst (process_query (sample_client two_calls (text_block ''ok'')) sample_runtime
      ''list my files'' io_init) =
     Inr [\<lparr>msg_role = User, msg_content = Plain ''list my files''\<rparr>,
          \<lparr>msg_role = Assistant, msg_content = Blocks
             [ToolUse \<lparr>tu_id = ''t2'', tu_name = ''list_files'',
                       tu_input = JObject [(''path'', JString ''/tmp'')]\<rparr>,
              ToolUse \<lparr>tu_id = ''t1'', tu_name = ''list_files'', tu_input = JObject []\<rparr>]\<rparr>,
          \<lparr>msg_role = User, msg_content = Blocks
             [ToolResult \<lparr>tool_use_id = ''t2'',
                          result_content = ''files of {'path': '/tmp'}''\<rparr>,
              ToolResult \<lparr>tool_use_id = ''t1'', result_content = ''files of {}''\<rparr>]\<rparr>] \<and>
   ((\<exists>results rb ra sk c w'.
      last [\<lparr>msg_role = User, msg_content = Plain ''list my files''\<rparr>,
          \<lparr>msg_role = Assistant, msg_content = Blocks
             [ToolUse \<lparr>tu_id = ''t2'', tu_name = ''list_files'',
                       tu_input = JObject [(''path'', JString ''/tmp'')]\<rparr>,
              ToolUse \<lparr>tu_id = ''t1'', tu_name = ''list_files'', tu_input = JObject []\<rparr>]\<rparr>,
          \<lparr>msg_role = User, msg_content = Blocks
             [ToolResult \<lparr>tool_use_id = ''t2'',
                          result_content = ''files of {'path': '/tmp'}''\<rparr>,
              ToolResult \<lparr>tool_use_id = ''t1'', result_content = ''files of {}''\<rparr>]\<rparr>] =
        \<lparr>msg_role = User, msg_content = Blocks (map ToolResult results)\<rparr> \<and>
      map tool_use_id results =
        map tu_id (tool_calls
          \<lparr>text_parts = [],
           tool_calls = [\<lparr>tu_id = ''t2'', tu_name = ''list_files'',
                           tu_input = JObject [(''path'', JString ''/tmp'')]\<rparr>,
                         \<lparr>tu_id = ''t1'', tu_name = ''list_files'', tu_input = JObject []\<rparr>],
           current_tool_call = None, out = []\<rparr>) \<and>
      results = rb @ \<lparr>tool_use_id = tu_id \<lparr>tu_id = ''t1'', tu_name = ''list_files'',
                                              tu_input = JObject []\<rparr>,
                      result_content = c\<rparr> # ra \<and>
      length rb = length [\<lparr>tu_id = ''t2'', tu_name = ''list_files'',
                           tu_input = JObject [(''path'', JString ''/tmp'')]\<rparr>] \<and>
      call_tools (sample_client two_calls (text_block ''ok'')) sample_runtime
        [\<lparr>tu_id = ''t2'', tu_name = ''list_files'',
          tu_input = JObject [(''path'', JString ''/tmp'')]\<rparr>] []
        (io_init\<lparr>requests := [sample_request
            [\<lparr>msg_role = User, msg_content = Plain ''list my files''\<rparr>]]\<rparr>
         \<lparr>stdout := stdout (io_init\<lparr>requests := [sample_request
            [\<lparr>msg_role = User, msg_content = Plain ''list my files''\<rparr>]]\<rparr>) @
            out \<lparr>text_parts = [],
           tool_calls = [\<lparr>tu_id = ''t2'', tu_name = ''list_files'',
                           tu_input = JObject [(''path'', JString ''/tmp'')]\<rparr>,
                         \<lparr>tu_id = ''t1'', tu_name = ''list_files'', tu_input = JObject []\<rparr>],
           current_tool_call = None, out = []\<rparr>\<rparr>) = (Inr rb, sk) \<and>
      call_tool (sample_client two_calls (text_block ''ok''))
        (tu_name \<lparr>tu_id = ''t1'', tu_name = ''list_files'', tu_input = JObject []\<rparr>)
        (tu_input \<lparr>tu_id = ''t1'', tu_name = ''list_files'', tu_input = JObject []\<rparr>)
        (world sk) = (Inr c, w')) \<and>
    (\<exists>later. tool_calls (snd (decode_stream sample_runtime (two_calls @ text_block ''ok''))) =
      tool_calls
          \<lparr>text_parts = [],
           tool_calls = [\<lparr>tu_id = ''t2'', tu_name = ''list_files'',
                           tu_input = JObject [(''path'', JString ''/tmp'')]\<rparr>,
                         \<lparr>tu_id = ''t1'', tu_name = ''list_files'', tu_input = JObject []\<rparr>],
           current_tool_call = None, out = []\<rparr> @ later))"
proof -
  let ?cl = "sample_client two_calls (text_block ''ok'')"
  let ?A = "\<lparr>tu_id = ''t2'', tu_name = ''list_files'',
      tu_input = JObject [(''path'', JString ''/tmp'')]\<rparr>"
  let ?B = "\<lparr>tu_id = ''t1'', tu_name = ''list_files'', tu_input = JObject []\<rparr>"
  let ?d = "\<lparr>text_parts = [], tool_calls = [?A, ?B], current_tool_call = None, out = []\<rparr>"
  have lt: "list_tools ?cl (world io_init) =
      (Inr [\<lparr>tool_name = ''list_files'', tool_description = Some ''List files'',
             tool_inputSchema = JObject []\<rparr>], 0)"
    by (simp add: sample_defs)
  have cs: "create_stream ?cl [\<lparr>msg_role = User, msg_content = Plain ''list my files''\<rparr>]
      (available_tools_of [\<lparr>tool_name = ''list_files'', tool_description = Some ''List files'',
             tool_inputSchema = JObject []\<rparr>]) (io_init\<lparr>world := 0\<rparr>) =
      (Inr two_calls, io_init\<lparr>requests :=
         [sample_request [\<lparr>msg_role = User, msg_content = Plain ''list my files''\<rparr>]]\<rparr>)"
    by (simp add: sample_defs sample_request_def)
  have dec: "decode_stream sample_runtime two_calls = (None, ?d)"
    by (simp add: sample_defs two_calls_def)
  have place: "tool_calls ?d = [?A] @ ?B # []"
    by simp
  have ok: "fst (process_query ?cl sample_runtime ''list my files'' io_init) =
     Inr [\<lparr>msg_role = User, msg_content = Plain ''list my files''\<rparr>,
          \<lparr>msg_role = Assistant, msg_content = Blocks [ToolUse ?A, ToolUse ?B]\<rparr>,
          \<lparr>msg_role = User, msg_content = Blocks
             [ToolResult \<lparr>tool_use_id = ''t2'',
                          result_content = ''files of {'path': '/tmp'}''\<rparr>,
              ToolResult \<lparr>tool_use_id = ''t1'', result_content = ''files of {}''\<rparr>]\<rparr>]"
    by (simp add: sample_defs run_defs)
  note order = tool_results_in_closing_order [OF lt cs dec place ok, of "text_block ''ok''"]
  show ?thesis
    by (rule conjI [OF ok order])
qed

text \<open>
  C6. Of the second stream only the text fragments are printed, between two
  newlines; the tool invocations of the query are those of the tool calls of
  the first stream, whatever the second stream carries, and two model requests
  are made.
\<close>

theorem second_stream_text_only:
  fixes cl :: "('j, 'c, 'w) mcp_client"
  assumes lt: "list_tools cl (world s) = (Inr tools, w)"
    and cs: "create_stream cl [\<lparr>msg_role = User, msg_content = Plain query\<rparr>]
           (available_tools_of tools) (s\<lparr>world := w\<rparr>) = (Inr stream, s1)"
    and dec: "decode_stream rt stream = (None, d)"
    and calls: "tool_calls d \<noteq> []"
    and ct: "call_tools cl rt (tool_calls d) [] (s1\<lparr>stdout := stdout s1 @ out d\<rparr>) =
           (Inr results, s2)"
    and cs2: "create_stream cl
           [\<lparr>msg_role = User, msg_content = Plain query\<rparr>,
            \<lparr>msg_role = Assistant, msg_content = Blocks (assistant_message_content d)\<rparr>,
            \<lparr>msg_role = User, msg_content = Blocks (map ToolResult results)\<rparr>]
           (available_tools_of tools) s2 = (Inr stream2, s3)"
  shows "stdout (snd (process_query cl rt query s)) =
           stdout s2 @ [''\<newline>''] @ text_fragments stream2 @ [''\<newline>''] \<and>
         invocations (snd (process_query cl rt query s)) =
           invocations s @ map (\<lambda>tc. (tu_name tc, tu_input tc)) (tool_calls d) \<and>
         length (requests (snd (process_query cl rt query s))) = length (requests s) + 2"
proof -
  let ?m1 = "[\<lparr>msg_role = User, msg_content = Plain query\<rparr>]"
  let ?m2 = "?m1 @ [\<lparr>msg_role = Assistant,
      msg_content = Blocks (assistant_message_content d :: ('j, 'c) content_block list)\<rparr>]"
  let ?s1' = "s1\<lparr>stdout := stdout s1 @ out d\<rparr>"
  have pq: "process_query cl rt query s =
      run_tool_calls cl rt (tool_calls d) ?m2 (available_tools_of tools) ?s1'"
    using process_query_after_first_stream [OF lt cs dec] calls
    by (simp add: after_stream_def Let_def assistant_message_content_Nil)
  have run: "snd (run_tool_calls cl rt (tool_calls d) ?m2 (available_tools_of tools) ?s1') =
      s3\<lparr>stdout := fold print_text_delta stream2 (stdout s3 @ [''\<newline>'']) @ [''\<newline>'']\<rparr>"
    using ct cs2 by (simp add: run_tool_calls_def Let_def)
  have s3: "stdout s3 = stdout s2" "invocations s3 = invocations s2"
    "requests s3 = requests s2 @
      [\<lparr>req_model = ''deepseek-chat'', req_max_tokens = 1024,
        req_messages = [\<lparr>msg_role = User, msg_content = Plain query\<rparr>,
            \<lparr>msg_role = Assistant, msg_content = Blocks (assistant_message_content d)\<rparr>,
            \<lparr>msg_role = User, msg_content = Blocks (map ToolResult results)\<rparr>],
        req_tools = available_tools_of tools, req_stream = True\<rparr>]"
    using create_stream_effects [OF cs2] by simp_all
  have s2: "invocations s2 = invocations ?s1' @ map (\<lambda>tc. (tu_name tc, tu_input tc)) (tool_calls d)"
    using call_tools_results [OF ct] by simp
  have s2r: "requests s2 = requests ?s1'"
    using call_tools_requests [OF ct] .
  have s1: "invocations s1 = invocations s"
    "requests s1 = requests s @
      [\<lparr>req_model = ''deepseek-chat'', req_max_tokens = 1024,
        req_messages = [\<lparr>msg_role = User, msg_content = Plain query\<rparr>],
        req_tools = available_tools_of tools, req_stream = True\<rparr>]"
    using create_stream_effects [OF cs] by simp_all
  show ?thesis
    using pq run s3 s2 s2r s1 by (simp add: fold_print_text_delta)
qed

theorem second_stream_text_only_witness:
  "stdout (snd (process_query
      (sample_client (tool_block ''t1'' ''list_files'' [''{}''])
         (text_block ''Found '' @ tool_block ''t9'' ''list_files'' [''{}''] @ text_block ''a.txt''))
      sample_runtime ''list my files'' io_init)) =
     [''\<newline>[Calling tool list_files with args {}]\<newline>'', ''\<newline>'', ''Found '', ''a.txt'', ''\<newline>''] \<and>
   invocations (snd (process_query
      (sample_client (tool_block ''t1'' ''list_files'' [''{}''])
         (text_block ''Found '' @ tool_block ''t9'' ''list_files'' [''{}''] @ text_block ''a.txt''))
      sample_runtime ''list my files'' io_init)) = [(''list_files'', JObject [])] \<and>
   length (requests (snd (process_query
      (sample_client (tool_block ''t1'' ''list_files'' [''{}''])
         (text_block ''Found '' @ tool_block ''t9'' ''list_files'' [''{}''] @ text_block ''a.txt''))
      sample_runtime ''list my files'' io_init))) = 2"
proof -
  let ?first = "tool_block ''t1'' ''list_files'' [''{}'']"
  let ?second = "text_block ''Found '' @ tool_block ''t9'' ''list_files'' [''{}''] @
      text_block ''a.txt''"
  let ?cl = "sample_client ?first ?second"
  let ?tools = "[\<lparr>tool_name = ''list_files'', tool_description = Some ''List files'',
             tool_inputSchema = JObject []\<rparr>]"
  let ?d = "\<lparr>text_parts = [],
      tool_calls = [\<lparr>tu_id = ''t1'', tu_name = ''list_files'', tu_input = JObject []\<rparr>],
      current_tool_call = None, out = []\<rparr> :: json decoder"
  let ?m1 = "\<lparr>msg_role = User, msg_content = Plain ''list my files''\<rparr> :: (json, string) message"
  let ?s1 = "io_init\<lparr>requests := [sample_request [?m1]]\<rparr>"
  let ?results = "[\<lparr>tool_use_id = ''t1'', result_content = ''files of {}''\<rparr>]"
  let ?s2 = "\<lparr>world = Suc 0, stdout = [''\<newline>[Calling tool list_files with args {}]\<newline>''],
      requests = [sample_request [?m1]], invocations = [(''list_files'', JObject [])]\<rparr>"
  let ?m2 = "\<lparr>msg_role = Assistant, msg_content = Blocks (assistant_message_content ?d)\<rparr>
      :: (json, string) message"
  let ?m3 = "\<lparr>msg_role = User, msg_content = Blocks (map ToolResult ?results)\<rparr>
      :: (json, string) message"
  let ?s3 = "?s2\<lparr>requests := [sample_request [?m1], sample_request [?m1, ?m2, ?m3]]\<rparr>"
  have lt: "list_tools ?cl (world io_init) = (Inr ?tools, 0)"
    by (simp add: sample_defs)
  have cs: "create_stream ?cl [?m1] (available_tools_of ?tools) (io_init\<lparr>world := 0\<rparr>) =
      (Inr ?first, ?s1)"
    by (simp add: sample_defs sample_request_def)
  have dec: "decode_stream sample_runtime ?first = (None, ?d)"
    by (simp add: sample_defs)
  have calls: "tool_calls ?d \<noteq> []"
    by simp
  have ct: "call_tools ?cl sample_runtime (tool_calls ?d) []
      (?s1\<lparr>stdout := stdout ?s1 @ out ?d\<rparr>) = (Inr ?results, ?s2)"
    by (simp add: sample_defs run_defs)
  have cs2: "create_stream ?cl [?m1, ?m2, ?m3] (available_tools_of ?tools) ?s2 =
      (Inr ?second, ?s3)"
    by (simp add: sample_defs run_defs)
  have frags: "text_fragments ?second = [''Found '', ''a.txt'']"
    by (simp add: text_block_def tool_block_def)
  show ?thesis
    using second_stream_text_only [OF lt cs dec calls ct cs2] frags
    by (simp add: io_init_def)
qed



end
